theory Spec2Isabelle
  imports Complex_Main "HOL-Library.Char_ord" "HOL-Library.List_Lexorder"
begin

section \<open>Strings as the query functions use them\<close>

text \<open>
  Python strings are modelled as \<open>string\<close> (a list of characters). Every string of the three
  tables that takes part in a comparison (place names, cities, POI types, regions) is plain
  ASCII, and \<open>lower\<close> and \<open>strip\<close> are the ASCII parts of \<open>str.lower\<close> and \<open>str.strip\<close>.
  The characters outside ASCII, which occur in three POI names and one event description,
  are written as their UTF-8 bytes.
\<close>

definition is_upper :: "char \<Rightarrow> bool" where
  "is_upper c = (65 \<le> (of_char c :: nat) \<and> (of_char c :: nat) \<le> 90)"

definition lower_char :: "char \<Rightarrow> char" where
  "lower_char c = (if is_upper c then char_of ((of_char c :: nat) + 32) else c)"

definition lower :: "string \<Rightarrow> string" where
  "lower s = map lower_char s"

definition is_space :: "char \<Rightarrow> bool" where
  "is_space c = ((of_char c :: nat) \<in> {9, 10, 11, 12, 13, 28, 29, 30, 31, 32})"

definition strip :: "string \<Rightarrow> string" where
  "strip s = rev (dropWhile is_space (rev (dropWhile is_space s)))"

text \<open>\<open>starts_with q s\<close>: \<open>s\<close> begins with \<open>q\<close>; \<open>py_in q s\<close> is Python's \<open>q in s\<close> on strings.\<close>

fun starts_with :: "'a list \<Rightarrow> 'a list \<Rightarrow> bool" where
  "starts_with [] s = True"
| "starts_with (c # q) [] = False"
| "starts_with (c # q) (d # s) = (c = d \<and> starts_with q s)"

fun py_in :: "'a list \<Rightarrow> 'a list \<Rightarrow> bool" where
  "py_in q [] = (q = [])"
| "py_in q (d # s) = (starts_with q (d # s) \<or> py_in q s)"

section \<open>Floating-point numbers, idealised as reals\<close>

text \<open>
  The coordinates and distances of the source are Python floats. They are modelled as real
  numbers: rounding error, overflow and the special values of IEEE doubles are outside this
  model. \<open>round3 x\<close> is \<open>round(x, 3)\<close>, which rounds to the nearest multiple of one
  thousandth and takes the even neighbour at an exact tie.
\<close>

definition round_half_even :: "real \<Rightarrow> int" where
  "round_half_even x =
     (let f = \<lfloor>x\<rfloor>; r = x - of_int f
      in if r < 1 / 2 then f
         else if 1 / 2 < r then f + 1
         else if even f then f else f + 1)"

definition round3 :: "real \<Rightarrow> real" where
  "round3 x = of_int (round_half_even (x * 1000)) / 1000"

definition radians :: "real \<Rightarrow> real" where
  "radians x = x * (pi / 180)"

text \<open>The local variable \<open>a\<close> of \<open>_haversine_km\<close> and of \<open>_distance_km\<close>.\<close>

definition hav_a :: "real \<Rightarrow> real \<Rightarrow> real \<Rightarrow> real \<Rightarrow> real" where
  "hav_a lat1 lon1 lat2 lon2 =
     (sin (radians (lat2 - lat1) / 2))\<^sup>2
     + cos (radians lat1) * cos (radians lat2) * (sin (radians (lon2 - lon1) / 2))\<^sup>2"

text \<open>\<open>GeolocationServer._haversine_km\<close>, Earth radius \<open>r = 6371.0\<close>.\<close>

definition haversine_km :: "real \<Rightarrow> real \<Rightarrow> real \<Rightarrow> real \<Rightarrow> real" where
  "haversine_km lat1 lon1 lat2 lon2 = 2 * 6371 * arcsin (sqrt (hav_a lat1 lon1 lat2 lon2))"

text \<open>\<open>HistoricalTimelineServer._distance_km\<close>, the same formula with \<open>r = 6371\<close>.\<close>

definition distance_km :: "real \<Rightarrow> real \<Rightarrow> real \<Rightarrow> real \<Rightarrow> real" where
  "distance_km lat1 lon1 lat2 lon2 = 2 * 6371 * arcsin (sqrt (hav_a lat1 lon1 lat2 lon2))"

section \<open>The gazetteer\<close>

record place_info =
  pl_lat :: real
  pl_lon :: real
  pl_city :: string
  pl_type :: string


subsection \<open>geocode\<close>

record geocode_match =
  gm_name :: string
  gm_lat :: real
  gm_lon :: real
  gm_meta :: place_info

text \<open>The first loop of \<open>geocode\<close>: return at the first key equal to \<open>q\<close> once lower-cased.\<close>

fun exact_scan :: "string \<Rightarrow> (string \<times> place_info) list \<Rightarrow> (string \<times> place_info) option" where
  "exact_scan q [] = None"
| "exact_scan q ((name, info) # rest) =
     (if lower name = q then Some (name, info) else exact_scan q rest)"

text \<open>The second loop: return at the first entry whose key or city contains \<open>q\<close>.\<close>

fun substring_scan :: "string \<Rightarrow> (string \<times> place_info) list \<Rightarrow> (string \<times> place_info) option" where
  "substring_scan q [] = None"
| "substring_scan q ((name, info) # rest) =
     (if py_in q (lower name) \<or> py_in q (lower (pl_city info)) then Some (name, info)
      else substring_scan q rest)"

definition found :: "string \<times> place_info \<Rightarrow> geocode_match" where
  "found p = \<lparr>gm_name = fst p, gm_lat = pl_lat (snd p), gm_lon = pl_lon (snd p), gm_meta = snd p\<rparr>"

text \<open>
  The body of \<open>geocode\<close> over a table; \<open>Inl msg\<close> is the returned dict \<open>{"error": msg}\<close>,
  \<open>Inr m\<close> the dict with the keys name, lat, lon and meta.
\<close>

definition geocode_in :: "(string \<times> place_info) list \<Rightarrow> string \<Rightarrow> string + geocode_match" where
  "geocode_in places query =
     (let q = lower (strip query)
      in case exact_scan q places of
           Some p \<Rightarrow> Inr (found p)
         | None \<Rightarrow>
             (case substring_scan q places of
                Some p \<Rightarrow> Inr (found p)
              | None \<Rightarrow> Inl (''No match found for '' @ [CHR 0x27] @ query @ [CHR 0x27])))"


subsection \<open>reverse_geocode\<close>

record nearest_location =
  nl_name :: string
  nl_city :: string
  nl_type :: string
  nl_distance_km :: real
  nl_lat :: real
  nl_lon :: real

text \<open>
  The scan of \<open>reverse_geocode\<close>. The pair of locals \<open>best\<close> and \<open>best_d\<close> is one
  optional value: \<open>None\<close> is the initial state \<open>best = None\<close>, \<open>best_d = inf\<close>, below which
  every distance lies, and \<open>Some ((name, info), d)\<close> is a candidate with its distance.
\<close>

fun nearest_scan ::
  "real \<Rightarrow> real \<Rightarrow> (string \<times> place_info) list \<Rightarrow> ((string \<times> place_info) \<times> real) option
   \<Rightarrow> ((string \<times> place_info) \<times> real) option" where
  "nearest_scan lat lon [] best = best"
| "nearest_scan lat lon ((name, info) # rest) best =
     (let d = haversine_km lat lon (pl_lat info) (pl_lon info)
      in if (case best of None \<Rightarrow> True | Some (_, best_d) \<Rightarrow> d < best_d)
         then nearest_scan lat lon rest (Some ((name, info), d))
         else nearest_scan lat lon rest best)"

definition located :: "string \<times> place_info \<Rightarrow> real \<Rightarrow> nearest_location" where
  "located p best_d =
     \<lparr>nl_name = fst p, nl_city = pl_city (snd p), nl_type = pl_type (snd p),
      nl_distance_km = round3 best_d, nl_lat = pl_lat (snd p), nl_lon = pl_lon (snd p)\<rparr>"

text \<open>
  The body of \<open>reverse_geocode\<close> over a table; \<open>Inl msg\<close> is \<open>{"error": msg}\<close> and \<open>Inr n\<close>
  is \<open>{"nearest_location": n}\<close>.
\<close>

definition reverse_geocode_in ::
  "(string \<times> place_info) list \<Rightarrow> real \<Rightarrow> real \<Rightarrow> string + nearest_location" where
  "reverse_geocode_in places lat lon =
     (case nearest_scan lat lon places None of
        None \<Rightarrow> Inl ''No places available.''
      | Some (p, best_d) \<Rightarrow> Inr (located p best_d))"


section \<open>The points of interest\<close>

record poi =
  poi_name :: string
  poi_lat :: real
  poi_lon :: real
  poi_type :: string

text \<open>An entry of the result: the keys of the POI and the key \<open>distance_km\<close>.\<close>

record poi_entry = poi +
  poi_distance_km :: real

definition POIS :: "poi list" where
  "POIS =
    [\<lparr>poi_name = ''AUBMC'',
      poi_lat = 33.896, poi_lon = 35.478, poi_type = ''hospital''\<rparr>,
     \<lparr>poi_name = ''Rafik Hariri Univ. Hospital (RHUH)'',
      poi_lat = 33.871, poi_lon = 35.513, poi_type = ''hospital''\<rparr>,
     \<lparr>poi_name = ''Hotel-Dieu de France'',
      poi_lat = 33.8869, poi_lon = 35.5233, poi_type = ''hospital''\<rparr>,
     \<lparr>poi_name = (''LAU Medical Center '' @ [CHR 0xE2, CHR 0x80, CHR 0x93] @ '' Rizk Hospital''),
      poi_lat = 33.8927, poi_lon = 35.5159, poi_type = ''hospital''\<rparr>,
     \<lparr>poi_name = ''Baalbek Governmental Hospital'',
      poi_lat = 34.01, poi_lon = 36.21, poi_type = ''hospital''\<rparr>,
     \<lparr>poi_name = ''Zahle Governmental Hospital'',
      poi_lat = 33.846, poi_lon = 35.904, poi_type = ''hospital''\<rparr>,
     \<lparr>poi_name = ''American University of Beirut (AUB)'',
      poi_lat = 33.901, poi_lon = 35.48, poi_type = ''university''\<rparr>,
     \<lparr>poi_name = ''Lebanese American University (LAU) Beirut'',
      poi_lat = 33.8957, poi_lon = 35.4865, poi_type = ''university''\<rparr>,
     \<lparr>poi_name = (''Saint Joseph University (USJ) '' @ [CHR 0xE2, CHR 0x80, CHR 0x93] @ '' Huvelin''),
      poi_lat = 33.8934, poi_lon = 35.5103, poi_type = ''university''\<rparr>,
     \<lparr>poi_name = ''Beirut Souks'',
      poi_lat = 33.901, poi_lon = 35.504, poi_type = ''mall''\<rparr>,
     \<lparr>poi_name = ''ABC Achrafieh'',
      poi_lat = 33.886, poi_lon = 35.521, poi_type = ''mall''\<rparr>,
     \<lparr>poi_name = ''ABC Verdun'',
      poi_lat = 33.883, poi_lon = 35.486, poi_type = ''mall''\<rparr>,
     \<lparr>poi_name = ''City Centre Beirut'',
      poi_lat = 33.868, poi_lon = 35.535, poi_type = ''mall''\<rparr>,
     \<lparr>poi_name = ''National Museum of Beirut'',
      poi_lat = 33.8833, poi_lon = 35.5192, poi_type = ''museum''\<rparr>,
     \<lparr>poi_name = ''Sursock Museum'',
      poi_lat = 33.892, poi_lon = 35.5171, poi_type = ''museum''\<rparr>,
     \<lparr>poi_name = ''Byblos Archaeological Site'',
      poi_lat = 34.1239, poi_lon = 35.6518, poi_type = ''museum''\<rparr>,
     \<lparr>poi_name = ''Baalbek Roman Temples'',
      poi_lat = 34.006, poi_lon = 36.203, poi_type = ''museum''\<rparr>,
     \<lparr>poi_name = ''Forum de Beyrouth'',
      poi_lat = 33.898, poi_lon = 35.535, poi_type = ''venue''\<rparr>,
     \<lparr>poi_name = ''Beiteddine Palace (Chouf)'',
      poi_lat = 33.694, poi_lon = 35.579, poi_type = ''museum''\<rparr>,
     \<lparr>poi_name = ''Roman Hippodrome of Tyre'',
      poi_lat = 33.263, poi_lon = 35.205, poi_type = ''museum''\<rparr>,
     \<lparr>poi_name = ''Byblos Old Souk'',
      poi_lat = 34.121, poi_lon = 35.648, poi_type = ''venue''\<rparr>,
     \<lparr>poi_name = ''Al Madina Theatre'',
      poi_lat = 33.8937, poi_lon = 35.4867, poi_type = ''theater''\<rparr>,
     \<lparr>poi_name = ''Horsh Beirut'',
      poi_lat = 33.8727, poi_lon = 35.5053, poi_type = ''park''\<rparr>,
     \<lparr>poi_name = ''Rouche (Pigeon Rocks)'',
      poi_lat = 33.8896, poi_lon = 35.4703, poi_type = ''park''\<rparr>,
     \<lparr>poi_name = ''Tyre Beach (South)'',
      poi_lat = 33.257, poi_lon = 35.214, poi_type = ''beach''\<rparr>,
     \<lparr>poi_name = ''Ramlet el-Baida Beach'',
      poi_lat = 33.8749, poi_lon = 35.4769, poi_type = ''beach''\<rparr>,
     \<lparr>poi_name = (''Beirut'' @ [CHR 0xE2, CHR 0x80, CHR 0x93] @ ''Rafic Hariri International Airport''),
      poi_lat = 33.8209, poi_lon = 35.4884, poi_type = ''airport''\<rparr>,
     \<lparr>poi_name = ''Charles Helou Bus Station'',
      poi_lat = 33.8994, poi_lon = 35.5199, poi_type = ''venue''\<rparr>,
     \<lparr>poi_name = ''Phoenicia Hotel Beirut'',
      poi_lat = 33.9015, poi_lon = 35.49, poi_type = ''hotel''\<rparr>,
     \<lparr>poi_name = ''Le Gray (Downtown)'',
      poi_lat = 33.8967, poi_lon = 35.5019, poi_type = ''hotel''\<rparr>,
     \<lparr>poi_name = ''Tawlet Mar Mikhael'',
      poi_lat = 33.8968, poi_lon = 35.5182, poi_type = ''restaurant''\<rparr>,
     \<lparr>poi_name = ''Mayrig Gemmayze'',
      poi_lat = 33.8944, poi_lon = 35.5148, poi_type = ''restaurant''\<rparr>,
     \<lparr>poi_name = ''Zahle Wine House'',
      poi_lat = 33.8465, poi_lon = 35.9035, poi_type = ''restaurant''\<rparr>,
     \<lparr>poi_name = ''Pharmacy 24/7 Hamra'',
      poi_lat = 33.8955, poi_lon = 35.482, poi_type = ''pharmacy''\<rparr>,
     \<lparr>poi_name = ''US Embassy (Awkar - approx)'',
      poi_lat = 33.956, poi_lon = 35.589, poi_type = ''embassy''\<rparr>,
     \<lparr>poi_name = ''French Embassy (Achrafieh - approx)'',
      poi_lat = 33.888, poi_lon = 35.517, poi_type = ''embassy''\<rparr>,
     \<lparr>poi_name = ''Camille Chamoun Sports City Stadium'',
      poi_lat = 33.859, poi_lon = 35.494, poi_type = ''stadium''\<rparr>]"
text \<open>\<open>entry = dict(poi); entry["distance_km"] = round(d, 3)\<close>\<close>

definition poi_with_distance :: "poi \<Rightarrow> real \<Rightarrow> poi_entry" where
  "poi_with_distance p d =
     \<lparr>poi_name = poi_name p, poi_lat = poi_lat p, poi_lon = poi_lon p, poi_type = poi_type p,
      poi_distance_km = round3 d\<rparr>"

text \<open>The loop of \<open>nearby_search\<close> over the POI list, with its accumulator \<open>hits\<close>.\<close>

fun nearby_hits ::
  "real \<Rightarrow> real \<Rightarrow> string \<Rightarrow> real \<Rightarrow> poi list \<Rightarrow> poi_entry list \<Rightarrow> poi_entry list" where
  "nearby_hits lat lon t radius_km [] hits = hits"
| "nearby_hits lat lon t radius_km (p # rest) hits =
     (if lower (poi_type p) \<noteq> t then nearby_hits lat lon t radius_km rest hits
      else let d = haversine_km lat lon (poi_lat p) (poi_lon p)
           in if d \<le> radius_km
              then nearby_hits lat lon t radius_km rest (hits @ [poi_with_distance p d])
              else nearby_hits lat lon t radius_km rest hits)"

text \<open>
  Python's slice \<open>xs[:n]\<close>: the first \<open>n\<close> elements for \<open>n \<ge> 0\<close>, and all but the last
  \<open>-n\<close> elements for a negative \<open>n\<close>.
\<close>

definition slice_to :: "'a list \<Rightarrow> int \<Rightarrow> 'a list" where
  "slice_to xs n = (if 0 \<le> n then take (nat n) xs else take (nat (int (length xs) + n)) xs)"

text \<open>\<open>if limit is not None: xs = xs[:limit]\<close>\<close>

definition apply_limit :: "int option \<Rightarrow> 'a list \<Rightarrow> 'a list" where
  "apply_limit limit xs = (case limit of None \<Rightarrow> xs | Some n \<Rightarrow> slice_to xs n)"





section \<open>The historical events\<close>

record event =
  ev_title :: string
  ev_year :: int
  ev_lat :: real
  ev_lon :: real
  ev_region :: string
  ev_description :: string

text \<open>An event with the key \<open>distance_km\<close>, and one with the key \<open>distance_to_route_km\<close>.\<close>

record near_event = event +
  ev_distance_km :: real

record route_event = event +
  ev_distance_to_route_km :: real

definition EVENTS :: "event list" where
  "EVENTS =
    [\<lparr>ev_title = ''Founding of Beirut as a Roman colony'', ev_year = 14,
      ev_lat = 33.895, ev_lon = 35.48, ev_region = ''Beirut'',
      ev_description =
        ''Beirut was declared a Roman colonia, marking its emergence as an imperial administrative center.''\<rparr>,
     \<lparr>ev_title = ''Beirut School of Law rises to prominence'', ev_year = 350,
      ev_lat = 33.896, ev_lon = 35.477, ev_region = ''Beirut'',
      ev_description =
        ''The Beirut Law School shaped major Roman and Byzantine legal codes.''\<rparr>,
     \<lparr>ev_title = ''Byzantine earthquake devastates Beirut'', ev_year = 551,
      ev_lat = 33.895, ev_lon = 35.48, ev_region = ''Beirut'',
      ev_description =
        ''A catastrophic earthquake destroyed parts of Roman Beirut.''\<rparr>,
     \<lparr>ev_title = ''Crusader conquest of Beirut'', ev_year = 1110,
      ev_lat = 33.901, ev_lon = 35.501, ev_region = ''Beirut'',
      ev_description =
        ''Crusaders seized Beirut as part of expanding the Kingdom of Jerusalem.''\<rparr>,
     \<lparr>ev_title = ''Beirut port explosion'', ev_year = 2020,
      ev_lat = 33.901, ev_lon = 35.519, ev_region = ''Beirut'',
      ev_description =
        (''A massive detonation reshaped the city'' @ [CHR 0x27] @ ''s contemporary history.'')\<rparr>,
     \<lparr>ev_title = ''Temple of Jupiter constructed'', ev_year = 60,
      ev_lat = 34.006, ev_lon = 36.203, ev_region = ''Baalbek'',
      ev_description =
        ''The largest surviving Roman temple columns were erected here.''\<rparr>,
     \<lparr>ev_title = ''Temple of Bacchus completed'', ev_year = 150,
      ev_lat = 34.006, ev_lon = 36.203, ev_region = ''Baalbek'',
      ev_description =
        ''One of the best-preserved ancient temples in the world.''\<rparr>,
     \<lparr>ev_title = ''Umayyad citadel reinforced'', ev_year = 685,
      ev_lat = 34.006, ev_lon = 36.203, ev_region = ''Baalbek'',
      ev_description =
        ''Baalbek fortifications were expanded under early Islamic rule.''\<rparr>,
     \<lparr>ev_title = (''Ma'' @ [CHR 0x27] @ ''an dynasty rises''), ev_year = 1120,
      ev_lat = 33.694, ev_lon = 35.58, ev_region = ''Chouf'',
      ev_description =
        (''The Ma'' @ [CHR 0x27] @ ''an family consolidated political power in Mount Lebanon.'')\<rparr>,
     \<lparr>ev_title = ''Fakhreddine II reforms'', ev_year = 1623,
      ev_lat = 33.695, ev_lon = 35.58, ev_region = ''Chouf'',
      ev_description =
        ''Economic and administrative reforms linked Mount Lebanon to Mediterranean trade.''\<rparr>,
     \<lparr>ev_title = ''Crusader County of Tripoli founded'', ev_year = 1109,
      ev_lat = 34.438, ev_lon = 35.83, ev_region = ''Tripoli'',
      ev_description =
        ''Tripoli became the last major Crusader polity in the Levant.''\<rparr>,
     \<lparr>ev_title = ''Mamluk reconstruction of Tripoli'', ev_year = 1300,
      ev_lat = 34.438, ev_lon = 35.83, ev_region = ''Tripoli'',
      ev_description =
        ''Mamluks rebuilt Tripoli inland after ending Crusader rule.''\<rparr>,
     \<lparr>ev_title = ''Phoenician expansion from Sidon'', ev_year = - 900,
      ev_lat = 33.56, ev_lon = 35.375, ev_region = ''Sidon'',
      ev_description =
        ''Sidon led major Phoenician maritime trade expansions across the Mediterranean.''\<rparr>,
     \<lparr>ev_title = ''Siege of Tyre by Alexander the Great'', ev_year = - 332,
      ev_lat = 33.27, ev_lon = 35.196, ev_region = ''Tyre'',
      ev_description =
        ''Alexander captured Tyre after constructing a causeway to the island city.''\<rparr>,
     \<lparr>ev_title = ''Byblos develops alphabetic writing'', ev_year = - 1200,
      ev_lat = 34.123, ev_lon = 35.651, ev_region = ''Byblos'',
      ev_description =
        ''Byblos played a key role in the evolution of the Phoenician alphabet.''\<rparr>,
     \<lparr>ev_title = ''Akkar on the frontier of Crusader Antioch'', ev_year = 1100,
      ev_lat = 34.59, ev_lon = 36.08, ev_region = ''Akkar'',
      ev_description =
        ''A contested border zone between Crusaders and regional Islamic powers.''\<rparr>,
     \<lparr>ev_title = ''Anjar palace constructed'', ev_year = 715,
      ev_lat = 33.726, ev_lon = 35.929, ev_region = ''Bekaa'',
      ev_description =
        ''Anjar was built under the Umayyads as a planned palace city.''\<rparr>,
     \<lparr>ev_title = ''Rise of Zahle as a trade center'', ev_year = 1700,
      ev_lat = 33.85, ev_lon = 35.9, ev_region = ''Zahle'',
      ev_description =
        ''Zahle emerged as a major trade hub linking the Bekaa Valley with Beirut.''\<rparr>,
     \<lparr>ev_title = ''Lebanese Independence'', ev_year = 1943,
      ev_lat = 33.8889, ev_lon = 35.4944, ev_region = ''Lebanon'',
      ev_description =
        ''Lebanon gained independence from the French Mandate.''\<rparr>,
     \<lparr>ev_title = ''End of Civil War'', ev_year = 1990,
      ev_lat = 33.888, ev_lon = 35.495, ev_region = ''Lebanon'',
      ev_description =
        ''The Taif Agreement ended 15 years of civil conflict.''\<rparr>,
     \<lparr>ev_title = ''Cedar Revolution'', ev_year = 2005,
      ev_lat = 33.888, ev_lon = 35.495, ev_region = ''Lebanon'',
      ev_description =
        (''Nationwide demonstrations reshaped Lebanon'' @ [CHR 0xE2, CHR 0x80, CHR 0x99] @ ''s modern political landscape.'')\<rparr>]"

subsection \<open>_filter_years\<close>



subsection \<open>events_near_location\<close>

text \<open>\<open>entry = dict(ev); entry["distance_km"] = round(d, 3)\<close>\<close>

definition event_with_distance :: "event \<Rightarrow> real \<Rightarrow> near_event" where
  "event_with_distance ev d =
     \<lparr>ev_title = ev_title ev, ev_year = ev_year ev, ev_lat = ev_lat ev, ev_lon = ev_lon ev,
      ev_region = ev_region ev, ev_description = ev_description ev, ev_distance_km = round3 d\<rparr>"

fun near_results :: "real \<Rightarrow> real \<Rightarrow> real \<Rightarrow> event list \<Rightarrow> near_event list \<Rightarrow> near_event list" where
  "near_results lat lon radius_km [] results = results"
| "near_results lat lon radius_km (ev # rest) results =
     (let d = distance_km lat lon (ev_lat ev) (ev_lon ev)
      in if d \<le> radius_km
         then near_results lat lon radius_km rest (results @ [event_with_distance ev d])
         else near_results lat lon radius_km rest results)"





subsection \<open>region_timeline\<close>




subsection \<open>route_history_summary\<close>

datatype py_error = ValueError

text \<open>
  The builtin \<open>min\<close> over the values of a generator: it raises \<open>ValueError\<close> on an empty
  one, and otherwise keeps the first value that no later one is below.
\<close>

fun py_min :: "real list \<Rightarrow> py_error + real" where
  "py_min [] = Inl ValueError"
| "py_min (x # xs) = Inr (fold (\<lambda>y m. if y < m then y else m) xs x)"

text \<open>The first loop: \<open>total\<close> accumulates the distance between consecutive vertices.\<close>

fun path_total :: "(real \<times> real) list \<Rightarrow> real \<Rightarrow> real" where
  "path_total ((lat1, lon1) # (lat2, lon2) # rest) total_km =
     path_total ((lat2, lon2) # rest) (total_km + distance_km lat1 lon1 lat2 lon2)"
| "path_total path total_km = total_km"

text \<open>\<open>entry = dict(ev); entry["distance_to_route_km"] = round(closest, 3)\<close>\<close>

definition event_with_route_distance :: "event \<Rightarrow> real \<Rightarrow> route_event" where
  "event_with_route_distance ev closest =
     \<lparr>ev_title = ev_title ev, ev_year = ev_year ev, ev_lat = ev_lat ev, ev_lon = ev_lon ev,
      ev_region = ev_region ev, ev_description = ev_description ev,
      ev_distance_to_route_km = round3 closest\<rparr>"

text \<open>The second loop, over the events, with its accumulator \<open>nearby\<close>.\<close>

fun route_nearby ::
  "(real \<times> real) list \<Rightarrow> real \<Rightarrow> event list \<Rightarrow> route_event list \<Rightarrow> py_error + route_event list" where
  "route_nearby path corridor_km [] nearby = Inr nearby"
| "route_nearby path corridor_km (ev # rest) nearby =
     (case py_min (map (\<lambda>(lat, lon). distance_km lat lon (ev_lat ev) (ev_lon ev)) path) of
        Inl err \<Rightarrow> Inl err
      | Inr closest \<Rightarrow>
          if closest \<le> corridor_km
          then route_nearby path corridor_km rest (nearby @ [event_with_route_distance ev closest])
          else route_nearby path corridor_km rest nearby)"

text \<open>\<open>str\<close> of an integer, as an f-string prints it, and \<open>sep.join\<close>.\<close>

fun str_nat :: "nat \<Rightarrow> string" where
  "str_nat n =
     (if n < 10 then [char_of (48 + n)] else str_nat (n div 10) @ [char_of (48 + n mod 10)])"

declare str_nat.simps [simp del]

definition str_int :: "int \<Rightarrow> string" where
  "str_int i = (if i < 0 then CHR ''-'' # str_nat (nat (- i)) else str_nat (nat i))"

fun join :: "string \<Rightarrow> string list \<Rightarrow> string" where
  "join sep [] = []"
| "join sep [s] = s"
| "join sep (s # t # rest) = s @ sep @ join sep (t # rest)"

definition narrative :: "string list \<Rightarrow> int \<Rightarrow> int \<Rightarrow> string" where
  "narrative regions earliest latest =
     ''This route intersects historically significant regions including ''
     @ join '', '' regions @ ''. Events span from '' @ str_int earliest @ '' to ''
     @ str_int latest @ '', covering Phoenician, Hellenistic, Roman, Byzantine, Islamic, ''
     @ ''Mamluk, Ottoman, and modern Lebanese periods.''"

text \<open>
  The returned dict. The early return for a short path has no key \<open>corridor_km\<close>: there
  \<open>rs_corridor_km\<close> is \<open>None\<close>; the final return has the key, with the argument as its value.
\<close>

record route_result =
  rs_path_length_km :: real
  rs_corridor_km :: "real option"
  rs_selected_events :: "route_event list"
  rs_summary :: string

definition route_history_summary_in ::
  "event list \<Rightarrow> (real \<times> real) list \<Rightarrow> real \<Rightarrow> py_error + route_result" where
  "route_history_summary_in table path corridor_km =
     (if length path < 2
      then Inr \<lparr>rs_path_length_km = 0, rs_corridor_km = None, rs_selected_events = [],
                rs_summary = ''Route is too short for evaluation.''\<rparr>
      else
        let total_km = path_total path 0
        in case route_nearby path corridor_km table [] of
             Inl err \<Rightarrow> Inl err
           | Inr nearby \<Rightarrow>
               let nearby = sort_key ev_year nearby;
                   summary =
                     (if nearby \<noteq> []
                      then let regions = sort (remdups (map ev_region nearby));
                               earliest = ev_year (hd nearby);
                               latest = ev_year (last nearby)
                           in narrative regions earliest latest
                      else ''No historical events fall within the specified corridor.'')
               in Inr \<lparr>rs_path_length_km = round3 total_km, rs_corridor_km = Some corridor_km,
                        rs_selected_events = nearby, rs_summary = summary\<rparr>)"

definition route_history_summary :: "(real \<times> real) list \<Rightarrow> real \<Rightarrow> py_error + route_result" where
  "route_history_summary path corridor_km = route_history_summary_in EVENTS path corridor_km"

section \<open>The tables as stored objects\<close>

text \<open>
  The functions above compute with values. In the source the entries of the tables are dict
  objects that the loops reach by reference, so that a write through such a reference would
  change the table. This section models the objects: a store is the list of the dict objects,
  an object is referred to by its position, and a table is a list of references.

  A dict object of the POI store holds the keys of a POI and, once it is set, the key
  \<open>distance_km\<close>; one of the event store holds the keys of an event and, once they are set,
  the keys \<open>distance_km\<close> and \<open>distance_to_route_km\<close>.
\<close>

record poi_dict =
  pd_keys :: poi
  pd_distance_km :: "real option"

record event_dict =
  ed_keys :: event
  ed_distance_km :: "real option"
  ed_distance_to_route_km :: "real option"

text \<open>\<open>dict(obj)\<close>: a new object with the items of the one at \<open>a\<close>; its reference is returned.\<close>

definition dict_copy :: "'a list \<Rightarrow> nat \<Rightarrow> nat \<times> 'a list" where
  "dict_copy st a = (length st, st @ [st ! a])"

text \<open>
  The loop of \<open>nearby_search\<close> on the store: \<open>entry = dict(poi)\<close> creates an object, and
  \<open>entry["distance_km"] = round(d, 3)\<close> writes to the object that \<open>entry\<close> refers to.
\<close>

fun nearby_hits_st ::
  "real \<Rightarrow> real \<Rightarrow> string \<Rightarrow> real \<Rightarrow> nat list \<Rightarrow> nat list \<Rightarrow> poi_dict list
   \<Rightarrow> nat list \<times> poi_dict list" where
  "nearby_hits_st lat lon t radius_km [] hits st = (hits, st)"
| "nearby_hits_st lat lon t radius_km (a # rest) hits st =
     (let p = pd_keys (st ! a)
      in if lower (poi_type p) \<noteq> t then nearby_hits_st lat lon t radius_km rest hits st
         else let d = haversine_km lat lon (poi_lat p) (poi_lon p)
              in if d \<le> radius_km
                 then let (entry, st) = dict_copy st a;
                          st = st[entry := (st ! entry)\<lparr>pd_distance_km := Some (round3 d)\<rparr>]
                      in nearby_hits_st lat lon t radius_km rest (hits @ [entry]) st
                 else nearby_hits_st lat lon t radius_km rest hits st)"

text \<open>The loop of \<open>events_near_location\<close> on the store.\<close>

fun near_results_st ::
  "real \<Rightarrow> real \<Rightarrow> real \<Rightarrow> nat list \<Rightarrow> nat list \<Rightarrow> event_dict list
   \<Rightarrow> nat list \<times> event_dict list" where
  "near_results_st lat lon radius_km [] results st = (results, st)"
| "near_results_st lat lon radius_km (a # rest) results st =
     (let ev = ed_keys (st ! a);
          d = distance_km lat lon (ev_lat ev) (ev_lon ev)
      in if d \<le> radius_km
         then let (entry, st) = dict_copy st a;
                  st = st[entry := (st ! entry)\<lparr>ed_distance_km := Some (round3 d)\<rparr>]
              in near_results_st lat lon radius_km rest (results @ [entry]) st
         else near_results_st lat lon radius_km rest results st)"

text \<open>The second loop of \<open>route_history_summary\<close> on the store.\<close>

fun route_nearby_st ::
  "(real \<times> real) list \<Rightarrow> real \<Rightarrow> nat list \<Rightarrow> nat list \<Rightarrow> event_dict list
   \<Rightarrow> (py_error + nat list) \<times> event_dict list" where
  "route_nearby_st path corridor_km [] nearby st = (Inr nearby, st)"
| "route_nearby_st path corridor_km (a # rest) nearby st =
     (let ev = ed_keys (st ! a)
      in case py_min (map (\<lambda>(lat, lon). distance_km lat lon (ev_lat ev) (ev_lon ev)) path) of
           Inl err \<Rightarrow> (Inl err, st)
         | Inr closest \<Rightarrow>
             if closest \<le> corridor_km
             then let (entry, st) = dict_copy st a;
                      st = st[entry :=
                            (st ! entry)\<lparr>ed_distance_to_route_km := Some (round3 closest)\<rparr>]
                  in route_nearby_st path corridor_km rest (nearby @ [entry]) st
             else route_nearby_st path corridor_km rest nearby st)"

text \<open>
  The query functions on the store. Each returns its result and the store it leaves. The
  results are the references in their final order; \<open>x["distance_km"]\<close> and \<open>x["year"]\<close> of
  the sort keys are read from the object that \<open>x\<close> refers to. \<open>_filter_years\<close> and the list
  comprehension of \<open>region_timeline\<close> build new lists of the references they keep.
\<close>

definition nearby_search_st ::
  "nat list \<Rightarrow> real \<Rightarrow> real \<Rightarrow> string \<Rightarrow> real \<Rightarrow> int option \<Rightarrow> poi_dict list
   \<Rightarrow> nat list \<times> poi_dict list" where
  "nearby_search_st pois lat lon ptype radius_km limit st =
     (let t = lower (strip ptype);
          (hits, st) = nearby_hits_st lat lon t radius_km pois [] st;
          hits = sort_key (\<lambda>x. the (pd_distance_km (st ! x))) hits;
          hits = apply_limit limit hits
      in (hits, st))"

fun filter_years_refs ::
  "event_dict list \<Rightarrow> nat list \<Rightarrow> int option \<Rightarrow> int option \<Rightarrow> nat list \<Rightarrow> nat list" where
  "filter_years_refs st [] start_year end_year out = out"
| "filter_years_refs st (a # rest) start_year end_year out =
     (let y = ev_year (ed_keys (st ! a))
      in if (case start_year of None \<Rightarrow> False | Some s \<Rightarrow> y < s)
         then filter_years_refs st rest start_year end_year out
         else if (case end_year of None \<Rightarrow> False | Some e \<Rightarrow> e < y)
         then filter_years_refs st rest start_year end_year out
         else filter_years_refs st rest start_year end_year (out @ [a]))"

definition events_near_location_st ::
  "nat list \<Rightarrow> real \<Rightarrow> real \<Rightarrow> real \<Rightarrow> int option \<Rightarrow> int option \<Rightarrow> event_dict list
   \<Rightarrow> nat list \<times> event_dict list" where
  "events_near_location_st table lat lon radius_km start_year end_year st =
     (let events = filter_years_refs st table start_year end_year [];
          (results, st) = near_results_st lat lon radius_km events [] st;
          results = sort_key (\<lambda>x. the (ed_distance_km (st ! x))) results
      in (results, st))"

definition region_timeline_st ::
  "nat list \<Rightarrow> string \<Rightarrow> int option \<Rightarrow> int option \<Rightarrow> int option \<Rightarrow> event_dict list
   \<Rightarrow> nat list \<times> event_dict list" where
  "region_timeline_st table region_name start_year end_year limit st =
     (let r = lower region_name;
          matches = [a \<leftarrow> table. py_in r (lower (ev_region (ed_keys (st ! a))))];
          matches = filter_years_refs st matches start_year end_year [];
          matches = sort_key (\<lambda>x. ev_year (ed_keys (st ! x))) matches;
          matches = apply_limit limit matches
      in (matches, st))"

definition route_history_summary_st ::
  "nat list \<Rightarrow> (real \<times> real) list \<Rightarrow> real \<Rightarrow> event_dict list
   \<Rightarrow> (py_error + nat list) \<times> event_dict list" where
  "route_history_summary_st table path corridor_km st =
     (if length path < 2 then (Inr [], st)
      else case route_nearby_st path corridor_km table [] st of
             (Inl err, st) \<Rightarrow> (Inl err, st)
           | (Inr nearby, st) \<Rightarrow>
               (Inr (sort_key (\<lambda>x. ev_year (ed_keys (st ! x))) nearby), st))"

text \<open>
  \<open>geocode\<close> and \<open>reverse_geocode\<close> read the place objects through the references of the
  table and have no statement that writes to an object.
\<close>

definition geocode_st ::
  "(string \<times> nat) list \<Rightarrow> string \<Rightarrow> place_info list
   \<Rightarrow> (string + geocode_match) \<times> place_info list" where
  "geocode_st places query st = (geocode_in (map (\<lambda>(name, a). (name, st ! a)) places) query, st)"

definition reverse_geocode_st ::
  "(string \<times> nat) list \<Rightarrow> real \<Rightarrow> real \<Rightarrow> place_info list
   \<Rightarrow> (string + nearest_location) \<times> place_info list" where
  "reverse_geocode_st places lat lon st =
     (reverse_geocode_in (map (\<lambda>(name, a). (name, st ! a)) places) lat lon, st)"

text \<open>
  The values that the objects stand for: the POI or event of a stored object, and the entry
  of an object that has its derived key.
\<close>

definition poi_entry_of :: "poi_dict \<Rightarrow> poi_entry option" where
  "poi_entry_of obj =
     (case pd_distance_km obj of
        None \<Rightarrow> None
      | Some d \<Rightarrow>
          Some \<lparr>poi_name = poi_name (pd_keys obj), poi_lat = poi_lat (pd_keys obj),
                 poi_lon = poi_lon (pd_keys obj), poi_type = poi_type (pd_keys obj),
                 poi_distance_km = d\<rparr>)"

definition near_event_of :: "event_dict \<Rightarrow> near_event option" where
  "near_event_of obj =
     (case ed_distance_km obj of
        None \<Rightarrow> None
      | Some d \<Rightarrow>
          Some \<lparr>ev_title = ev_title (ed_keys obj), ev_year = ev_year (ed_keys obj),
                 ev_lat = ev_lat (ed_keys obj), ev_lon = ev_lon (ed_keys obj),
                 ev_region = ev_region (ed_keys obj),
                 ev_description = ev_description (ed_keys obj), ev_distance_km = d\<rparr>)"

definition route_event_of :: "event_dict \<Rightarrow> route_event option" where
  "route_event_of obj =
     (case ed_distance_to_route_km obj of
        None \<Rightarrow> None
      | Some d \<Rightarrow>
          Some \<lparr>ev_title = ev_title (ed_keys obj), ev_year = ev_year (ed_keys obj),
                 ev_lat = ev_lat (ed_keys obj), ev_lon = ev_lon (ed_keys obj),
                 ev_region = ev_region (ed_keys obj),
                 ev_description = ev_description (ed_keys obj), ev_distance_to_route_km = d\<rparr>)"

text \<open>
  \<open>stored_unchanged st st'\<close>: every object of the store \<open>st\<close> is in \<open>st'\<close>, at its position
  and with its items; \<open>st'\<close> may hold further objects. \<open>valid_refs st refs\<close>: every reference
  of \<open>refs\<close> is to an object of \<open>st\<close>.
\<close>

definition stored_unchanged :: "'a list \<Rightarrow> 'a list \<Rightarrow> bool" where
  "stored_unchanged st st' = (length st \<le> length st' \<and> take (length st) st' = st)"

definition valid_refs :: "'a list \<Rightarrow> nat list \<Rightarrow> bool" where
  "valid_refs st refs = (\<forall>a\<in>set refs. a < length st)"

text \<open>The stores of the loaded tables, and the tables as the references to their objects.\<close>

definition POIS_store :: "poi_dict list" where
  "POIS_store = map (\<lambda>p. \<lparr>pd_keys = p, pd_distance_km = None\<rparr>) POIS"

definition EVENTS_store :: "event_dict list" where
  "EVENTS_store =
     map (\<lambda>ev. \<lparr>ed_keys = ev, ed_distance_km = None, ed_distance_to_route_km = None\<rparr>) EVENTS"

definition POIS_refs :: "nat list" where
  "POIS_refs = [0..<length POIS]"

definition EVENTS_refs :: "nat list" where
  "EVENTS_refs = [0..<length EVENTS]"

section \<open>Notions the properties are stated with\<close>





text \<open>The inclusive year range, where a bound that is \<open>None\<close> does not restrict.\<close>

definition in_year_range :: "int option \<Rightarrow> int option \<Rightarrow> int \<Rightarrow> bool" where
  "in_year_range start_year end_year y =
     ((case start_year of None \<Rightarrow> True | Some s \<Rightarrow> s \<le> y)
      \<and> (case end_year of None \<Rightarrow> True | Some e \<Rightarrow> y \<le> e))"






text \<open>The events that \<open>events_near_location\<close> keeps, and their entries.\<close>

definition event_matches :: "real \<Rightarrow> real \<Rightarrow> real \<Rightarrow> int option \<Rightarrow> int option \<Rightarrow> event \<Rightarrow> bool" where
  "event_matches lat lon radius_km start_year end_year ev =
     (in_year_range start_year end_year (ev_year ev)
      \<and> distance_km lat lon (ev_lat ev) (ev_lon ev) \<le> radius_km)"






section \<open>Substrings\<close>



section \<open>First matches\<close>



section \<open>geocode\<close>






section \<open>The distance over the reals\<close>

text \<open>
  Over the reals the local \<open>a\<close> of the haversine formula lies between 0 and 1 for all
  arguments, also for latitudes and longitudes outside their ranges, so that \<open>math.sqrt\<close> and
  \<open>math.asin\<close> are applied inside their domains. The distance of a point to itself is 0,
  the distance is symmetric and not negative, and it stays below 25484 km, half the
  circumference of the sphere rounded up. The two copies of the formula are the same function.
\<close>

lemma radians_diff: "radians (x - y) = radians x - radians y"
  unfolding radians_def by (rule left_diff_distrib)

lemma radians_swap: "radians (x - y) / 2 = - (radians (y - x) / 2)"
proof -
  have "radians (x - y) = - radians (y - x)" by (simp add: radians_diff)
  then show ?thesis by simp
qed

lemma sin_half_squared: "2 * (sin (x / 2))\<^sup>2 = 1 - cos (x::real)"
  using cos_double_sin [of "x / 2"] by simp

lemma one_plus_cos_nonneg: "0 \<le> 1 + cos (x::real)"
  using cos_ge_minus_one [of x] by linarith

lemma one_minus_cos_nonneg: "0 \<le> 1 - cos (x::real)"
  using cos_le_one [of x] by linarith

lemma hav_a_expand:
  "2 * hav_a lat1 lon1 lat2 lon2 =
     (1 - (sin (radians (lon2 - lon1) / 2))\<^sup>2) * (1 - cos (radians lat2 - radians lat1))
     + (sin (radians (lon2 - lon1) / 2))\<^sup>2 * (1 + cos (radians lat1 + radians lat2))"
proof -
  have r: "radians (lat2 - lat1) = radians lat2 - radians lat1"
    by (simp add: radians_diff)
  have h: "2 * (sin ((radians lat2 - radians lat1) / 2))\<^sup>2 = 1 - cos (radians lat2 - radians lat1)"
    by (rule sin_half_squared)
  have p: "2 * (cos (radians lat1) * cos (radians lat2))
      = cos (radians lat2 - radians lat1) + cos (radians lat1 + radians lat2)"
    by (simp add: cos_diff cos_add)
  have "2 * hav_a lat1 lon1 lat2 lon2 =
      2 * (sin ((radians lat2 - radians lat1) / 2))\<^sup>2
      + 2 * (cos (radians lat1) * cos (radians lat2)) * (sin (radians (lon2 - lon1) / 2))\<^sup>2"
    by (simp add: hav_a_def r algebra_simps)
  also have "\<dots> = (1 - cos (radians lat2 - radians lat1))
      + (cos (radians lat2 - radians lat1) + cos (radians lat1 + radians lat2))
        * (sin (radians (lon2 - lon1) / 2))\<^sup>2"
    by (simp only: h p)
  finally show ?thesis by (simp add: algebra_simps)
qed

lemma sin_squared_bounds: "0 \<le> (sin (x::real))\<^sup>2 \<and> (sin x)\<^sup>2 \<le> 1"
  using abs_sin_le_one [of x] by (simp add: abs_square_le_1)

lemma hav_a_nonneg: "0 \<le> hav_a lat1 lon1 lat2 lon2"
proof -
  let ?s = "(sin (radians (lon2 - lon1) / 2))\<^sup>2"
  have s: "0 \<le> ?s" "0 \<le> 1 - ?s"
    using sin_squared_bounds [of "radians (lon2 - lon1) / 2"] by simp_all
  have "0 \<le> (1 - ?s) * (1 - cos (radians lat2 - radians lat1))"
    using s one_minus_cos_nonneg by (intro mult_nonneg_nonneg)
  moreover have "0 \<le> ?s * (1 + cos (radians lat1 + radians lat2))"
    using s one_plus_cos_nonneg by (intro mult_nonneg_nonneg)
  ultimately have "0 \<le> 2 * hav_a lat1 lon1 lat2 lon2" by (simp only: hav_a_expand)
  then show ?thesis by simp
qed

lemma hav_a_le_one: "hav_a lat1 lon1 lat2 lon2 \<le> 1"
proof -
  let ?s = "(sin (radians (lon2 - lon1) / 2))\<^sup>2"
  let ?c = "cos (radians lat2 - radians lat1)"
  let ?e = "cos (radians lat1 + radians lat2)"
  have s: "0 \<le> ?s" "0 \<le> 1 - ?s"
    using sin_squared_bounds [of "radians (lon2 - lon1) / 2"] by simp_all
  have a: "0 \<le> (1 - ?s) * (1 + ?c)"
    using s one_plus_cos_nonneg by (intro mult_nonneg_nonneg)
  have b: "0 \<le> ?s * (1 - ?e)"
    using s one_minus_cos_nonneg by (intro mult_nonneg_nonneg)
  have "2 - 2 * hav_a lat1 lon1 lat2 lon2 = (1 - ?s) * (1 + ?c) + ?s * (1 - ?e)"
    by (simp only: hav_a_expand) (simp add: algebra_simps)
  then have "0 \<le> 2 - 2 * hav_a lat1 lon1 lat2 lon2" using a b by simp
  then show ?thesis by simp
qed


lemma hav_a_sym: "hav_a lat1 lon1 lat2 lon2 = hav_a lat2 lon2 lat1 lon1"
proof -
  have "(sin (radians (lat2 - lat1) / 2))\<^sup>2 = (sin (radians (lat1 - lat2) / 2))\<^sup>2"
    "(sin (radians (lon2 - lon1) / 2))\<^sup>2 = (sin (radians (lon1 - lon2) / 2))\<^sup>2"
    by (simp_all only: radians_swap [of lat2 lat1] radians_swap [of lon2 lon1] sin_minus power2_minus)
  then show ?thesis unfolding hav_a_def by (simp add: mult.commute)
qed



lemma distance_km_sym: "distance_km lat1 lon1 lat2 lon2 = distance_km lat2 lon2 lat1 lon1"
  by (simp only: distance_km_def hav_a_sym [of lat1 lon1 lat2 lon2])

lemma sqrt_hav_a_bounds:
  "0 \<le> sqrt (hav_a lat1 lon1 lat2 lon2) \<and> sqrt (hav_a lat1 lon1 lat2 lon2) \<le> 1"
  using hav_a_nonneg [of lat1 lon1 lat2 lon2] hav_a_le_one [of lat1 lon1 lat2 lon2]
  by simp


lemma distance_km_bound: "distance_km lat1 lon1 lat2 lon2 < 25484"
proof -
  have lo: "- 1 \<le> sqrt (hav_a lat1 lon1 lat2 lon2)"
    by (rule order_trans [of _ 0]) (simp_all add: hav_a_nonneg)
  have hi: "sqrt (hav_a lat1 lon1 lat2 lon2) \<le> 1"
    using sqrt_hav_a_bounds by blast
  have "arcsin (sqrt (hav_a lat1 lon1 lat2 lon2)) \<le> pi / 2"
    by (rule arcsin_ubound [OF lo hi])
  then have "distance_km lat1 lon1 lat2 lon2 \<le> 6371 * pi"
    by (simp add: distance_km_def)
  moreover have "6371 * pi < 25484" using pi_less_4 by simp
  ultimately show ?thesis by simp
qed


section \<open>reverse_geocode\<close>














section \<open>Sorting and slicing\<close>



section \<open>nearby_search\<close>













section \<open>_filter_years\<close>




section \<open>events_near_location\<close>





lemma distance_km_within: "25484 \<le> r \<Longrightarrow> distance_km lat1 lon1 lat2 lon2 \<le> r"
  using distance_km_bound [of lat1 lon1 lat2 lon2] by simp

lemma event_matches_far:
  "event_matches lat lon 30000 start_year end_year
     = (\<lambda>ev. in_year_range start_year end_year (ev_year ev))"
  by (simp add: event_matches_def fun_eq_iff distance_km_within)





section \<open>region_timeline\<close>








section \<open>route_history_summary\<close>
















text \<open>The narrative over all events, as the f-string prints it.\<close>

lemma narrative_of_all_EVENTS:
  "narrative
     [''Akkar'', ''Baalbek'', ''Beirut'', ''Bekaa'', ''Byblos'', ''Chouf'', ''Lebanon'', ''Sidon'',
      ''Tripoli'', ''Tyre'', ''Zahle'']
     (- 1200) 2020
   = ''This route intersects historically significant regions including Akkar, Baalbek, Beirut, ''
     @ ''Bekaa, Byblos, Chouf, Lebanon, Sidon, Tripoli, Tyre, Zahle. Events span from -1200 to ''
     @ ''2020, covering Phoenician, Hellenistic, Roman, Byzantine, Islamic, Mamluk, Ottoman, ''
     @ ''and modern Lebanese periods.''"
  by code_simp


text \<open>
  C7, as amended. For a path of fewer than two points \<open>route_history_summary\<close> returns,
  without raising, the path length 0, the empty list of selected events and the note
  "Route is too short for evaluation."; this result has the keys \<open>selected_events\<close>,
  \<open>summary\<close> and \<open>path_length_km\<close> and no key \<open>corridor_km\<close>.
\<close>

theorem route_history_summary_short:
  assumes "length path < 2"
  shows "route_history_summary_in table path corridor_km
           = Inr \<lparr>rs_path_length_km = 0, rs_corridor_km = None, rs_selected_events = [],
                  rs_summary = ''Route is too short for evaluation.''\<rparr>
         \<and> route_history_summary path corridor_km
             = route_history_summary_in EVENTS path corridor_km"
  using assms by (simp add: route_history_summary_in_def route_history_summary_def)

theorem route_history_summary_short_witness:
  "length ([] :: (real \<times> real) list) < 2
   \<and> route_history_summary [] 40
       = Inr \<lparr>rs_path_length_km = 0, rs_corridor_km = None, rs_selected_events = [],
              rs_summary = ''Route is too short for evaluation.''\<rparr>"
proof -
  have h: "length ([] :: (real \<times> real) list) < 2" by simp
  show ?thesis using route_history_summary_short [OF h, of EVENTS 40] h by simp
qed

text \<open>
  C7 as stated fails: the result for the single point (33.9, 35.5) and the corridor 40 has no
  key \<open>corridor_km\<close>, so it does not carry the threshold.
\<close>

theorem route_history_summary_short_counterexample:
  "route_history_summary [(33.9, 35.5)] 40
     = Inr \<lparr>rs_path_length_km = 0, rs_corridor_km = None, rs_selected_events = [],
            rs_summary = ''Route is too short for evaluation.''\<rparr>
   \<and> route_history_summary [(33.9, 35.5)] 40
     \<noteq> Inr \<lparr>rs_path_length_km = 0, rs_corridor_km = Some 40, rs_selected_events = [],
            rs_summary = ''Route is too short for evaluation.''\<rparr>"
  by (simp add: route_history_summary_def route_history_summary_in_def)

section \<open>The stored objects\<close>

lemma stored_unchanged_refl: "stored_unchanged st st"
  by (simp add: stored_unchanged_def)

lemma stored_unchanged_trans:
  assumes "stored_unchanged st st1" "stored_unchanged st1 st2"
  shows "stored_unchanged st st2"
proof -
  have l: "length st \<le> length st1" "length st1 \<le> length st2"
    and t: "take (length st) st1 = st" "take (length st1) st2 = st1"
    using assms by (simp_all add: stored_unchanged_def)
  have "take (length st) st2 = take (length st) (take (length st1) st2)"
    using l by (simp add: min_def)
  then have "take (length st) st2 = st" by (simp only: t)
  then show ?thesis using l by (simp add: stored_unchanged_def)
qed

lemma stored_unchanged_nth:
  assumes "stored_unchanged st st'" "a < length st"
  shows "st' ! a = st ! a"
proof -
  have "take (length st) st' ! a = st' ! a" using assms(2) by simp
  then show ?thesis using assms(1) by (simp add: stored_unchanged_def)
qed

lemma valid_refs_grow:
  assumes "stored_unchanged st st'" "valid_refs st refs"
  shows "valid_refs st' refs"
proof -
  have "length st \<le> length st'" using assms(1) by (simp add: stored_unchanged_def)
  then show ?thesis using assms(2) unfolding valid_refs_def by fastforce
qed

lemma stored_unchanged_append: "stored_unchanged st (st @ xs)"
  by (simp add: stored_unchanged_def)

lemma valid_refs_Cons: "valid_refs st (a # refs) \<longleftrightarrow> a < length st \<and> valid_refs st refs"
  by (simp add: valid_refs_def)

lemma valid_refs_snoc: "valid_refs st (refs @ [a]) \<longleftrightarrow> valid_refs st refs \<and> a < length st"
  by (auto simp: valid_refs_def)

lemma map_nth_unchanged:
  assumes "stored_unchanged st st'" "valid_refs st refs"
  shows "map (\<lambda>a. f (st' ! a)) refs = map (\<lambda>a. f (st ! a)) refs"
  using assms by (simp add: valid_refs_def stored_unchanged_nth)

subsection \<open>The loop of nearby_search\<close>

lemma nearby_hits_st_frame:
  "valid_refs st refs \<Longrightarrow>
     stored_unchanged st (snd (nearby_hits_st lat lon t radius_km refs hits st))"
proof (induction refs arbitrary: hits st)
  case Nil
  then show ?case by (simp add: stored_unchanged_refl)
next
  case (Cons a rest)
  let ?p = "pd_keys (st ! a)"
  let ?d = "haversine_km lat lon (poi_lat ?p) (poi_lon ?p)"
  let ?st1 = "st @ [(st ! a)\<lparr>pd_distance_km := Some (round3 ?d)\<rparr>]"
  have v: "valid_refs st rest" using Cons.prems by (simp add: valid_refs_Cons)
  show ?case
  proof (cases "lower (poi_type ?p) = t \<and> ?d \<le> radius_km")
    case True
    have u: "stored_unchanged st ?st1" by (rule stored_unchanged_append)
    have "stored_unchanged ?st1
        (snd (nearby_hits_st lat lon t radius_km rest (hits @ [length st]) ?st1))"
      by (rule Cons.IH [OF valid_refs_grow [OF u v]])
    then have "stored_unchanged st
        (snd (nearby_hits_st lat lon t radius_km rest (hits @ [length st]) ?st1))"
      by (rule stored_unchanged_trans [OF u])
    then show ?thesis using True by (simp add: dict_copy_def Let_def)
  next
    case False
    then show ?thesis using Cons.IH [OF v] by (auto simp: Let_def)
  qed
qed

lemma nearby_hits_st_values:
  "valid_refs st refs \<Longrightarrow> valid_refs st hits \<Longrightarrow>
   map (\<lambda>e. poi_entry_of (st ! e)) hits = map Some acc \<Longrightarrow>
   map (\<lambda>e. poi_entry_of (snd (nearby_hits_st lat lon t radius_km refs hits st) ! e))
       (fst (nearby_hits_st lat lon t radius_km refs hits st))
     = map Some (nearby_hits lat lon t radius_km (map (\<lambda>a. pd_keys (st ! a)) refs) acc)"
proof (induction refs arbitrary: hits st acc)
  case Nil
  then show ?case by simp
next
  case (Cons a rest)
  let ?p = "pd_keys (st ! a)"
  let ?d = "haversine_km lat lon (poi_lat ?p) (poi_lon ?p)"
  let ?st1 = "st @ [(st ! a)\<lparr>pd_distance_km := Some (round3 ?d)\<rparr>]"
  have v: "valid_refs st rest" using Cons.prems(1) by (simp add: valid_refs_Cons)
  show ?case
  proof (cases "lower (poi_type ?p) = t \<and> ?d \<le> radius_km")
    case True
    have u: "stored_unchanged st ?st1" by (rule stored_unchanged_append)
    have v1: "valid_refs ?st1 rest" by (rule valid_refs_grow [OF u v])
    have h1: "valid_refs ?st1 (hits @ [length st])"
      using valid_refs_grow [OF u Cons.prems(2)] by (simp add: valid_refs_snoc)
    have old: "map (\<lambda>e. poi_entry_of (?st1 ! e)) hits = map Some acc"
      using map_nth_unchanged [OF u Cons.prems(2), of poi_entry_of] Cons.prems(3) by simp
    have new: "poi_entry_of (?st1 ! length st) = Some (poi_with_distance ?p ?d)"
      by (simp add: poi_entry_of_def poi_with_distance_def)
    have e1: "map (\<lambda>e. poi_entry_of (?st1 ! e)) (hits @ [length st])
        = map Some (acc @ [poi_with_distance ?p ?d])"
      using old new by simp
    have r: "map (\<lambda>a. pd_keys (?st1 ! a)) rest = map (\<lambda>a. pd_keys (st ! a)) rest"
      by (rule map_nth_unchanged [OF u v])
    show ?thesis
      using Cons.IH [OF v1 h1 e1] True by (simp add: dict_copy_def Let_def r)
  next
    case False
    then show ?thesis using Cons.IH [OF v Cons.prems(2) Cons.prems(3)] by (auto simp: Let_def)
  qed
qed

lemma nearby_hits_st_fresh:
  "\<forall>e\<in>set (fst (nearby_hits_st lat lon t radius_km refs hits st)).
      e \<in> set hits \<or> length st \<le> e"
proof (induction refs arbitrary: hits st)
  case Nil
  then show ?case by simp
next
  case (Cons a rest)
  let ?p = "pd_keys (st ! a)"
  let ?d = "haversine_km lat lon (poi_lat ?p) (poi_lon ?p)"
  let ?st1 = "st @ [(st ! a)\<lparr>pd_distance_km := Some (round3 ?d)\<rparr>]"
  show ?case
  proof (cases "lower (poi_type ?p) = t \<and> ?d \<le> radius_km")
    case True
    have "\<forall>e\<in>set (fst (nearby_hits_st lat lon t radius_km rest (hits @ [length st]) ?st1)).
        e \<in> set (hits @ [length st]) \<or> length ?st1 \<le> e"
      by (rule Cons.IH)
    then have "\<forall>e\<in>set (fst (nearby_hits_st lat lon t radius_km rest (hits @ [length st]) ?st1)).
        e \<in> set hits \<or> length st \<le> e"
      by fastforce
    then show ?thesis using True by (simp add: dict_copy_def Let_def)
  next
    case False
    then show ?thesis using Cons.IH [of hits st] by (auto simp: Let_def)
  qed
qed

subsection \<open>The loop of events_near_location\<close>

lemma near_results_st_frame:
  "valid_refs st refs \<Longrightarrow>
     stored_unchanged st (snd (near_results_st lat lon radius_km refs results st))"
proof (induction refs arbitrary: results st)
  case Nil
  then show ?case by (simp add: stored_unchanged_refl)
next
  case (Cons a rest)
  let ?ev = "ed_keys (st ! a)"
  let ?d = "distance_km lat lon (ev_lat ?ev) (ev_lon ?ev)"
  let ?st1 = "st @ [(st ! a)\<lparr>ed_distance_km := Some (round3 ?d)\<rparr>]"
  have v: "valid_refs st rest" using Cons.prems by (simp add: valid_refs_Cons)
  show ?case
  proof (cases "?d \<le> radius_km")
    case True
    have u: "stored_unchanged st ?st1" by (rule stored_unchanged_append)
    have "stored_unchanged ?st1
        (snd (near_results_st lat lon radius_km rest (results @ [length st]) ?st1))"
      by (rule Cons.IH [OF valid_refs_grow [OF u v]])
    then have "stored_unchanged st
        (snd (near_results_st lat lon radius_km rest (results @ [length st]) ?st1))"
      by (rule stored_unchanged_trans [OF u])
    then show ?thesis using True by (simp add: dict_copy_def Let_def)
  next
    case False
    then show ?thesis using Cons.IH [OF v] by (auto simp: Let_def)
  qed
qed

lemma near_results_st_values:
  "valid_refs st refs \<Longrightarrow> valid_refs st results \<Longrightarrow>
   map (\<lambda>e. near_event_of (st ! e)) results = map Some acc \<Longrightarrow>
   map (\<lambda>e. near_event_of (snd (near_results_st lat lon radius_km refs results st) ! e))
       (fst (near_results_st lat lon radius_km refs results st))
     = map Some (near_results lat lon radius_km (map (\<lambda>a. ed_keys (st ! a)) refs) acc)"
proof (induction refs arbitrary: results st acc)
  case Nil
  then show ?case by simp
next
  case (Cons a rest)
  let ?ev = "ed_keys (st ! a)"
  let ?d = "distance_km lat lon (ev_lat ?ev) (ev_lon ?ev)"
  let ?st1 = "st @ [(st ! a)\<lparr>ed_distance_km := Some (round3 ?d)\<rparr>]"
  have v: "valid_refs st rest" using Cons.prems(1) by (simp add: valid_refs_Cons)
  show ?case
  proof (cases "?d \<le> radius_km")
    case True
    have u: "stored_unchanged st ?st1" by (rule stored_unchanged_append)
    have v1: "valid_refs ?st1 rest" by (rule valid_refs_grow [OF u v])
    have h1: "valid_refs ?st1 (results @ [length st])"
      using valid_refs_grow [OF u Cons.prems(2)] by (simp add: valid_refs_snoc)
    have old: "map (\<lambda>e. near_event_of (?st1 ! e)) results = map Some acc"
      using map_nth_unchanged [OF u Cons.prems(2), of near_event_of] Cons.prems(3) by simp
    have new: "near_event_of (?st1 ! length st) = Some (event_with_distance ?ev ?d)"
      by (simp add: near_event_of_def event_with_distance_def)
    have e1: "map (\<lambda>e. near_event_of (?st1 ! e)) (results @ [length st])
        = map Some (acc @ [event_with_distance ?ev ?d])"
      using old new by simp
    have r: "map (\<lambda>a. ed_keys (?st1 ! a)) rest = map (\<lambda>a. ed_keys (st ! a)) rest"
      by (rule map_nth_unchanged [OF u v])
    show ?thesis
      using Cons.IH [OF v1 h1 e1] True by (simp add: dict_copy_def Let_def r)
  next
    case False
    then show ?thesis using Cons.IH [OF v Cons.prems(2) Cons.prems(3)] by (auto simp: Let_def)
  qed
qed

lemma near_results_st_fresh:
  "\<forall>e\<in>set (fst (near_results_st lat lon radius_km refs results st)).
      e \<in> set results \<or> length st \<le> e"
proof (induction refs arbitrary: results st)
  case Nil
  then show ?case by simp
next
  case (Cons a rest)
  let ?ev = "ed_keys (st ! a)"
  let ?d = "distance_km lat lon (ev_lat ?ev) (ev_lon ?ev)"
  let ?st1 = "st @ [(st ! a)\<lparr>ed_distance_km := Some (round3 ?d)\<rparr>]"
  show ?case
  proof (cases "?d \<le> radius_km")
    case True
    have "\<forall>e\<in>set (fst (near_results_st lat lon radius_km rest (results @ [length st]) ?st1)).
        e \<in> set (results @ [length st]) \<or> length ?st1 \<le> e"
      by (rule Cons.IH)
    then have "\<forall>e\<in>set (fst (near_results_st lat lon radius_km rest (results @ [length st]) ?st1)).
        e \<in> set results \<or> length st \<le> e"
      by fastforce
    then show ?thesis using True by (simp add: dict_copy_def Let_def)
  next
    case False
    then show ?thesis using Cons.IH [of results st] by (auto simp: Let_def)
  qed
qed

subsection \<open>The second loop of route_history_summary\<close>

lemma route_nearby_st_frame:
  "valid_refs st refs \<Longrightarrow>
     stored_unchanged st (snd (route_nearby_st path corridor_km refs nearby st))"
proof (induction refs arbitrary: nearby st)
  case Nil
  then show ?case by (simp add: stored_unchanged_refl)
next
  case (Cons a rest)
  let ?ev = "ed_keys (st ! a)"
  let ?m = "py_min (map (\<lambda>(lat, lon). distance_km lat lon (ev_lat ?ev) (ev_lon ?ev)) path)"
  have v: "valid_refs st rest" using Cons.prems by (simp add: valid_refs_Cons)
  show ?case
  proof (cases ?m)
    case (Inl err)
    then show ?thesis by (simp add: stored_unchanged_refl)
  next
    case (Inr closest)
    let ?st1 = "st @ [(st ! a)\<lparr>ed_distance_to_route_km := Some (round3 closest)\<rparr>]"
    show ?thesis
    proof (cases "closest \<le> corridor_km")
      case True
      have u: "stored_unchanged st ?st1" by (rule stored_unchanged_append)
      have "stored_unchanged ?st1
          (snd (route_nearby_st path corridor_km rest (nearby @ [length st]) ?st1))"
        by (rule Cons.IH [OF valid_refs_grow [OF u v]])
      then have "stored_unchanged st
          (snd (route_nearby_st path corridor_km rest (nearby @ [length st]) ?st1))"
        by (rule stored_unchanged_trans [OF u])
      then show ?thesis using True Inr by (simp add: dict_copy_def)
    next
      case False
      then show ?thesis using Cons.IH [OF v] Inr by simp
    qed
  qed
qed

lemma route_nearby_st_values:
  "valid_refs st refs \<Longrightarrow> valid_refs st nearby \<Longrightarrow>
   map (\<lambda>e. route_event_of (st ! e)) nearby = map Some acc \<Longrightarrow>
   map_sum id (map (\<lambda>e. route_event_of (snd (route_nearby_st path corridor_km refs nearby st) ! e)))
       (fst (route_nearby_st path corridor_km refs nearby st))
     = map_sum id (map Some)
         (route_nearby path corridor_km (map (\<lambda>a. ed_keys (st ! a)) refs) acc)"
proof (induction refs arbitrary: nearby st acc)
  case Nil
  then show ?case by simp
next
  case (Cons a rest)
  let ?ev = "ed_keys (st ! a)"
  let ?m = "py_min (map (\<lambda>(lat, lon). distance_km lat lon (ev_lat ?ev) (ev_lon ?ev)) path)"
  have v: "valid_refs st rest" using Cons.prems(1) by (simp add: valid_refs_Cons)
  show ?case
  proof (cases ?m)
    case (Inl err)
    then show ?thesis by simp
  next
    case (Inr closest)
    let ?st1 = "st @ [(st ! a)\<lparr>ed_distance_to_route_km := Some (round3 closest)\<rparr>]"
    show ?thesis
    proof (cases "closest \<le> corridor_km")
      case True
      have u: "stored_unchanged st ?st1" by (rule stored_unchanged_append)
      have v1: "valid_refs ?st1 rest" by (rule valid_refs_grow [OF u v])
      have h1: "valid_refs ?st1 (nearby @ [length st])"
        using valid_refs_grow [OF u Cons.prems(2)] by (simp add: valid_refs_snoc)
      have old: "map (\<lambda>e. route_event_of (?st1 ! e)) nearby = map Some acc"
        using map_nth_unchanged [OF u Cons.prems(2), of route_event_of] Cons.prems(3) by simp
      have new: "route_event_of (?st1 ! length st) = Some (event_with_route_distance ?ev closest)"
        by (simp add: route_event_of_def event_with_route_distance_def)
      have e1: "map (\<lambda>e. route_event_of (?st1 ! e)) (nearby @ [length st])
          = map Some (acc @ [event_with_route_distance ?ev closest])"
        using old new by simp
      have r: "map (\<lambda>a. ed_keys (?st1 ! a)) rest = map (\<lambda>a. ed_keys (st ! a)) rest"
        by (rule map_nth_unchanged [OF u v])
      show ?thesis
        using Cons.IH [OF v1 h1 e1] True Inr by (simp add: dict_copy_def r)
    next
      case False
      then show ?thesis
        using Cons.IH [OF v Cons.prems(2) Cons.prems(3)] Inr by simp
    qed
  qed
qed

subsection \<open>The query functions on the store\<close>

lemma filter_years_refs_filter:
  "filter_years_refs st refs start_year end_year out
     = out @ filter (\<lambda>a. in_year_range start_year end_year (ev_year (ed_keys (st ! a)))) refs"
  by (induction refs arbitrary: out)
     (auto simp: in_year_range_def Let_def split: option.splits)

lemma filter_years_refs_valid:
  assumes "valid_refs st refs"
  shows "valid_refs st (filter_years_refs st refs start_year end_year [])"
  using assms by (simp add: filter_years_refs_filter valid_refs_def)

lemma nearby_search_st_store:
  "snd (nearby_search_st pois lat lon ptype radius_km limit st)
     = snd (nearby_hits_st lat lon (lower (strip ptype)) radius_km pois [] st)"
  by (simp add: nearby_search_st_def Let_def split_beta)

lemma events_near_location_st_store:
  "snd (events_near_location_st table lat lon radius_km start_year end_year st)
     = snd (near_results_st lat lon radius_km
              (filter_years_refs st table start_year end_year []) [] st)"
  by (simp add: events_near_location_st_def Let_def split_beta)

lemma route_history_summary_st_store:
  "snd (route_history_summary_st table path corridor_km st)
     = (if length path < 2 then st
        else snd (route_nearby_st path corridor_km table [] st))"
  by (simp add: route_history_summary_st_def split: prod.splits sum.splits)

lemma nearby_search_st_refs:
  "set (fst (nearby_search_st pois lat lon ptype radius_km limit st))
     \<subseteq> set (fst (nearby_hits_st lat lon (lower (strip ptype)) radius_km pois [] st))"
proof -
  have "set (apply_limit limit xs) \<subseteq> set xs" for xs :: "nat list"
    by (auto simp: apply_limit_def slice_to_def split: option.splits dest: in_set_takeD)
  then show ?thesis
    by (simp add: nearby_search_st_def Let_def split_beta) (metis set_sort)
qed

text \<open>
  The sort keys of \<open>nearby_search_st\<close> and \<open>events_near_location_st\<close> are read from objects
  that have the key: every reference that the loops return is to an object with its derived key.
\<close>

lemma mapped_Some_key:
  assumes "map f hits = map Some vs" "e \<in> set hits"
  shows "\<exists>v. f e = Some v"
proof -
  have "f e \<in> set (map f hits)" using assms(2) by simp
  then have "f e \<in> set (map Some vs)" by (simp only: assms(1))
  then show ?thesis by auto
qed

lemma nearby_hits_st_key:
  assumes "valid_refs st refs"
    and "e \<in> set (fst (nearby_hits_st lat lon t radius_km refs [] st))"
  shows "pd_distance_km (snd (nearby_hits_st lat lon t radius_km refs [] st) ! e) \<noteq> None"
proof -
  have nil: "valid_refs st []" by (simp add: valid_refs_def)
  obtain v where
    "poi_entry_of (snd (nearby_hits_st lat lon t radius_km refs [] st) ! e) = Some v"
    using mapped_Some_key [OF nearby_hits_st_values [OF assms(1) nil, of "[]" lat lon t radius_km]
        assms(2)]
    by auto
  then show ?thesis by (auto simp: poi_entry_of_def split: option.splits)
qed

lemma near_results_st_key:
  assumes "valid_refs st refs"
    and "e \<in> set (fst (near_results_st lat lon radius_km refs [] st))"
  shows "ed_distance_km (snd (near_results_st lat lon radius_km refs [] st) ! e) \<noteq> None"
proof -
  have nil: "valid_refs st []" by (simp add: valid_refs_def)
  obtain v where
    "near_event_of (snd (near_results_st lat lon radius_km refs [] st) ! e) = Some v"
    using mapped_Some_key [OF near_results_st_values [OF assms(1) nil, of "[]" lat lon radius_km]
        assms(2)]
    by auto
  then show ?thesis by (auto simp: near_event_of_def split: option.splits)
qed

text \<open>
  C9. On the store of dict objects, every query function leaves each stored object with the
  items it had, whatever its arguments: \<open>geocode\<close>, \<open>reverse_geocode\<close> and \<open>region_timeline\<close>
  write to no object, and the loops of \<open>nearby_search\<close>, \<open>events_near_location\<close> and
  \<open>route_history_summary\<close> write the derived key to the object that \<open>dict()\<close> has just
  created. The references that the three loops return are to these new objects and to no
  stored one, and the new objects hold the entries computed on values: the keys of the stored
  entity and the derived key.
\<close>

theorem queries_leave_stored_objects_unchanged:
  assumes "valid_refs pst pois" "valid_refs est events"
  shows "snd (geocode_st places query plst) = plst
       \<and> snd (reverse_geocode_st places lat lon plst) = plst
       \<and> snd (region_timeline_st events region_name start_year end_year limit est) = est
       \<and> stored_unchanged pst (snd (nearby_search_st pois lat lon ptype radius_km limit pst))
       \<and> stored_unchanged est
           (snd (events_near_location_st events lat lon radius_km start_year end_year est))
       \<and> stored_unchanged est (snd (route_history_summary_st events path corridor_km est))
       \<and> (\<forall>e\<in>set (fst (nearby_search_st pois lat lon ptype radius_km limit pst)).
             length pst \<le> e)
       \<and> (\<forall>e\<in>set (fst (events_near_location_st events lat lon radius_km start_year end_year est)).
             length est \<le> e)
       \<and> map (\<lambda>e. poi_entry_of (snd (nearby_hits_st lat lon t radius_km pois [] pst) ! e))
             (fst (nearby_hits_st lat lon t radius_km pois [] pst))
           = map Some (nearby_hits lat lon t radius_km (map (\<lambda>a. pd_keys (pst ! a)) pois) [])
       \<and> map (\<lambda>e. near_event_of (snd (near_results_st lat lon radius_km events [] est) ! e))
             (fst (near_results_st lat lon radius_km events [] est))
           = map Some (near_results lat lon radius_km (map (\<lambda>a. ed_keys (est ! a)) events) [])
       \<and> map_sum id
             (map (\<lambda>e. route_event_of (snd (route_nearby_st path corridor_km events [] est) ! e)))
             (fst (route_nearby_st path corridor_km events [] est))
           = map_sum id (map Some)
               (route_nearby path corridor_km (map (\<lambda>a. ed_keys (est ! a)) events) [])"
proof (intro conjI)
  have nil_p: "valid_refs x []" for x :: "poi_dict list" by (simp add: valid_refs_def)
  have nil_e: "valid_refs x []" for x :: "event_dict list" by (simp add: valid_refs_def)
  show "snd (geocode_st places query plst) = plst" by (simp add: geocode_st_def)
  show "snd (reverse_geocode_st places lat lon plst) = plst" by (simp add: reverse_geocode_st_def)
  show "snd (region_timeline_st events region_name start_year end_year limit est) = est"
    by (simp add: region_timeline_st_def Let_def)
  show "stored_unchanged pst (snd (nearby_search_st pois lat lon ptype radius_km limit pst))"
    by (simp add: nearby_search_st_store nearby_hits_st_frame [OF assms(1)])
  show "stored_unchanged est
           (snd (events_near_location_st events lat lon radius_km start_year end_year est))"
    by (simp add: events_near_location_st_store
        near_results_st_frame [OF filter_years_refs_valid [OF assms(2)]])
  show "stored_unchanged est (snd (route_history_summary_st events path corridor_km est))"
    by (simp add: route_history_summary_st_store route_nearby_st_frame [OF assms(2)]
        stored_unchanged_refl)
  show "\<forall>e\<in>set (fst (nearby_search_st pois lat lon ptype radius_km limit pst)). length pst \<le> e"
    using nearby_search_st_refs [of pois lat lon ptype radius_km limit pst]
      nearby_hits_st_fresh [of lat lon "lower (strip ptype)" radius_km pois "[]" pst]
    by auto
  show "\<forall>e\<in>set (fst (events_near_location_st events lat lon radius_km start_year end_year est)).
      length est \<le> e"
    using near_results_st_fresh
      [of lat lon radius_km "filter_years_refs est events start_year end_year []" "[]" est]
    by (simp add: events_near_location_st_def Let_def split_beta)
  show "map (\<lambda>e. poi_entry_of (snd (nearby_hits_st lat lon t radius_km pois [] pst) ! e))
             (fst (nearby_hits_st lat lon t radius_km pois [] pst))
           = map Some (nearby_hits lat lon t radius_km (map (\<lambda>a. pd_keys (pst ! a)) pois) [])"
    using nearby_hits_st_values [OF assms(1) nil_p, of "[]" lat lon t radius_km] by simp
  show "map (\<lambda>e. near_event_of (snd (near_results_st lat lon radius_km events [] est) ! e))
             (fst (near_results_st lat lon radius_km events [] est))
           = map Some (near_results lat lon radius_km (map (\<lambda>a. ed_keys (est ! a)) events) [])"
    using near_results_st_values [OF assms(2) nil_e, of "[]" lat lon radius_km] by simp
  show "map_sum id
             (map (\<lambda>e. route_event_of (snd (route_nearby_st path corridor_km events [] est) ! e)))
             (fst (route_nearby_st path corridor_km events [] est))
           = map_sum id (map Some)
               (route_nearby path corridor_km (map (\<lambda>a. ed_keys (est ! a)) events) [])"
    using route_nearby_st_values [OF assms(2) nil_e, of "[]" path corridor_km] by simp
qed

lemma valid_refs_POIS: "valid_refs POIS_store POIS_refs"
  by (simp add: valid_refs_def POIS_store_def POIS_refs_def)

lemma valid_refs_EVENTS: "valid_refs EVENTS_store EVENTS_refs"
  by (simp add: valid_refs_def EVENTS_store_def EVENTS_refs_def)

lemma POIS_store_values: "map (\<lambda>a. pd_keys (POIS_store ! a)) POIS_refs = POIS"
  by (rule nth_equalityI) (simp_all add: POIS_store_def POIS_refs_def)

theorem queries_leave_stored_objects_unchanged_witness:
  "valid_refs POIS_store POIS_refs \<and> valid_refs EVENTS_store EVENTS_refs
   \<and> stored_unchanged POIS_store
       (snd (nearby_search_st POIS_refs 33.896 35.478 ''hospital'' 30000 (Some 10) POIS_store))
   \<and> stored_unchanged EVENTS_store
       (snd (events_near_location_st EVENTS_refs 33.9 35.5 30000 None None EVENTS_store))
   \<and> stored_unchanged EVENTS_store
       (snd (route_history_summary_st EVENTS_refs [(33.9, 35.5), (34.0, 36.2)] 30000 EVENTS_store))
   \<and> map (\<lambda>e. poi_entry_of
                 (snd (nearby_hits_st 33.896 35.478 ''hospital'' 30000 POIS_refs [] POIS_store) ! e))
         (fst (nearby_hits_st 33.896 35.478 ''hospital'' 30000 POIS_refs [] POIS_store))
       = map Some (nearby_hits 33.896 35.478 ''hospital'' 30000 POIS [])"
  using queries_leave_stored_objects_unchanged [OF valid_refs_POIS valid_refs_EVENTS,
      where lat = "33.896" and lon = "35.478" and ptype = "''hospital''" and radius_km = 30000
        and limit = "Some 10" and t = "''hospital''"]
    queries_leave_stored_objects_unchanged [OF valid_refs_POIS valid_refs_EVENTS,
      where lat = "33.9" and lon = "35.5" and radius_km = 30000
        and start_year = None and end_year = None
        and path = "[(33.9, 35.5), (34.0, 36.2)]" and corridor_km = 30000]
    valid_refs_POIS valid_refs_EVENTS POIS_store_values
  by simp

end
